theory Spec2Isabelle
  imports Main "HOL-Library.Sublist"
begin

section \<open>Python strings\<close>

text \<open>
  A Python \<open>str\<close> is a list of characters. What the code asks of a character, whether
  it is whitespace (\<open>str.isspace\<close>, \<open>str.split\<close>, \<open>str.strip\<close>, the class \<open>\s\<close>) or
  alphanumeric (\<open>str.isalnum\<close>, and with the underscore the class \<open>\w\<close>), and what
  \<open>str.lower\<close> returns, is decided by the Unicode character database, which is not part
  of the repository. The functions of the Filename Normalizer therefore take the character
  type and the tables as a parameter, and are the code for every such table; \<open>of_ascii\<close>
  gives the character a literal of the source stands for.

  The rest of the model works with strings of \<open>char\<close>, the code points up to 255, and
  with the table \<open>latin1\<close>, which is the Unicode database on these code points.
\<close>

record 'c unicode =
  of_ascii :: "char \<Rightarrow> 'c"
  isspace :: "'c \<Rightarrow> bool"  \<comment> \<open>\<open>str.isspace\<close> on one character; the class \<open>\s\<close>\<close>
  isalnum :: "'c \<Rightarrow> bool"  \<comment> \<open>\<open>str.isalnum\<close> on one character\<close>
  lower :: "'c list \<Rightarrow> 'c list"  \<comment> \<open>\<open>str.lower()\<close>\<close>

definition str_lit :: "'c unicode \<Rightarrow> string \<Rightarrow> 'c list" where
  \<comment> \<open>a string literal of the source\<close>
  "str_lit U s = map (of_ascii U) s"

definition strip :: "'c unicode \<Rightarrow> 'c list \<Rightarrow> 'c list" where
  \<comment> \<open>\<open>str.strip()\<close>: whitespace removed at both ends.\<close>
  "strip U s = rev (dropWhile (isspace U) (rev (dropWhile (isspace U) s)))"

fun split_from :: "'c unicode \<Rightarrow> 'c list \<Rightarrow> 'c list \<Rightarrow> 'c list list" where
  \<comment> \<open>the scan of \<open>str.split()\<close>; the second argument is the token read so far\<close>
  "split_from U cur [] = (if cur = [] then [] else [cur])"
| "split_from U cur (c # cs) =
     (if isspace U c then (if cur = [] then split_from U [] cs else cur # split_from U [] cs)
      else split_from U (cur @ [c]) cs)"

definition split :: "'c unicode \<Rightarrow> 'c list \<Rightarrow> 'c list list" where
  \<comment> \<open>\<open>str.split()\<close> with no argument: maximal runs of non-whitespace.\<close>
  "split U s = split_from U [] s"

fun join :: "'c list \<Rightarrow> 'c list list \<Rightarrow> 'c list" where
  \<comment> \<open>\<open>sep.join(parts)\<close>\<close>
  "join sep [] = []"
| "join sep [w] = w"
| "join sep (w # v # ws) = w @ sep @ join sep (v # ws)"

fun remove_pdf :: "'c unicode \<Rightarrow> 'c list \<Rightarrow> 'c list" where
  \<comment> \<open>\<open>s.replace('.pdf', '')\<close>: every occurrence is removed, scanning from the left.\<close>
  "remove_pdf U [] = []"
| "remove_pdf U (c # cs) =
     (if prefix (str_lit U ''.pdf'') (c # cs) then remove_pdf U (drop 3 cs)
      else c # remove_pdf U cs)"

definition latin1_isspace :: "char \<Rightarrow> bool" where
  \<comment> \<open>TAB, LF, VT, FF, CR, FS, GS, RS, US, SPACE, NEL (U+0085) and NBSP (U+00A0)\<close>
  "latin1_isspace c = (let n = (of_char c :: nat) in
     (9 \<le> n \<and> n \<le> 13) \<or> (28 \<le> n \<and> n \<le> 32) \<or> n = 133 \<or> n = 160)"

definition latin1_isalnum :: "char \<Rightarrow> bool" where
  \<comment> \<open>the digits and letters of ASCII, and of the Latin-1 supplement the letters
      (U+00AA, U+00B5, U+00BA, U+00C0 to U+00FF without the two operators U+00D7 and U+00F7)
      and the numeric characters (U+00B2, U+00B3, U+00B9, U+00BC to U+00BE)\<close>
  "latin1_isalnum c = (let n = (of_char c :: nat) in
     (48 \<le> n \<and> n \<le> 57) \<or> (65 \<le> n \<and> n \<le> 90) \<or> (97 \<le> n \<and> n \<le> 122)
     \<or> n = 170 \<or> n = 178 \<or> n = 179 \<or> n = 181 \<or> n = 185 \<or> n = 186
     \<or> (188 \<le> n \<and> n \<le> 190) \<or> (192 \<le> n \<and> n \<le> 214) \<or> (216 \<le> n \<and> n \<le> 246)
     \<or> (248 \<le> n \<and> n \<le> 255))"

definition latin1_lower :: "char \<Rightarrow> char" where
  \<comment> \<open>the capital letters, A to Z and U+00C0 to U+00DE without U+00D7, have their small
      letter 32 code points further\<close>
  "latin1_lower c = (let n = (of_char c :: nat) in
     if (65 \<le> n \<and> n \<le> 90) \<or> (192 \<le> n \<and> n \<le> 214) \<or> (216 \<le> n \<and> n \<le> 222)
     then char_of (n + 32) else c)"

definition latin1 :: "char unicode" where
  "latin1 =
     \<lparr>of_ascii = (\<lambda>c. c), isspace = latin1_isspace, isalnum = latin1_isalnum,
      lower = map latin1_lower\<rparr>"

section \<open>Filename Normalizer (research\_paper\_util.py)\<close>

definition safe_char :: "'c unicode \<Rightarrow> 'c \<Rightarrow> bool" where
  \<comment> \<open>\<open>c.isalnum() or c in (" ", "-", "_")\<close>\<close>
  "safe_char U c = (isalnum U c \<or> c \<in> set (str_lit U '' -_''))"

definition safe_title :: "'c unicode \<Rightarrow> 'c list \<Rightarrow> 'c list" where
  \<comment> \<open>the local \<open>safe_title\<close> of \<open>generate_formatted_filename\<close> after both assignments\<close>
  "safe_title U title = join (str_lit U '' '') (split U (strip U (filter (safe_char U) title)))"

definition generate_formatted_filename :: "'c unicode \<Rightarrow> 'c list \<Rightarrow> 'c list" where
  "generate_formatted_filename U title = safe_title U title @ str_lit U ''.pdf''"

definition stop_words :: "string list" where
  "stop_words = [''a'', ''an'', ''the'', ''of'', ''for'', ''and'', ''or'', ''but'', ''in'',
     ''on'', ''at'', ''to'', ''from'', ''by'', ''with'', ''via'', ''using'', ''through'']"

definition clean_word :: "'c unicode \<Rightarrow> 'c list \<Rightarrow> 'c list" where
  \<comment> \<open>\<open>re.sub(r"[^\w\s-]", "", word)\<close>\<close>
  "clean_word U word =
     filter (\<lambda>c. isalnum U c \<or> c = of_ascii U CHR ''_'' \<or> isspace U c
                 \<or> c = of_ascii U CHR ''-'') word"

fun collect_key_words ::
  "'c unicode \<Rightarrow> int \<Rightarrow> 'c list list \<Rightarrow> 'c list list \<Rightarrow> 'c list list" where
  \<comment> \<open>the first loop of \<open>shorten_title_for_filename\<close>, from \<open>key_words\<close> over the words left\<close>
  "collect_key_words U max_words key_words [] = key_words"
| "collect_key_words U max_words key_words (word # ws) =
     (let cw = clean_word U word in
      if lower U cw \<notin> set (map (str_lit U) stop_words) \<and> cw \<noteq> [] then
        (let key_words' = key_words @ [cw] in
         if int (length key_words') \<ge> max_words then key_words'
         else collect_key_words U max_words key_words' ws)
      else collect_key_words U max_words key_words ws)"

fun add_back :: "'c unicode \<Rightarrow> 'c list list \<Rightarrow> 'c list list \<Rightarrow> 'c list list" where
  \<comment> \<open>the second loop: words are added back until four are kept\<close>
  "add_back U key_words [] = key_words"
| "add_back U key_words (word # ws) =
     (let cw = clean_word U word in
      if cw \<noteq> [] \<and> cw \<notin> set key_words then
        (let key_words' = key_words @ [cw] in
         if length key_words' \<ge> 4 then key_words' else add_back U key_words' ws)
      else add_back U key_words ws)"

definition shorten_key_words :: "'c unicode \<Rightarrow> 'c list \<Rightarrow> int \<Rightarrow> 'c list list" where
  \<comment> \<open>the list \<open>key_words\<close> when \<open>shorten_title_for_filename\<close> returns\<close>
  "shorten_key_words U title max_words =
     (let words = split U title;
          key_words = collect_key_words U max_words [] words
      in if length key_words < 3 \<and> length words > length key_words
         then add_back U key_words words else key_words)"

definition shorten_title_for_filename :: "'c unicode \<Rightarrow> 'c list \<Rightarrow> int \<Rightarrow> 'c list" where
  "shorten_title_for_filename U title max_words =
     join (str_lit U '' '') (shorten_key_words U title max_words)"

section \<open>The environment of a run\<close>

text \<open>
  Exceptions are values. Network, subprocess and file-system calls answer through the
  record \<open>env\<close>; what a run does to the outside world is recorded in the state, as the
  list of external calls made so far and the set of local files. Printing is not modelled.
\<close>

datatype py_error =
  ValueError | TypeError | AttributeError | KeyError | IndexError | JSONDecodeError | OSError
  | CalledProcessError | APIError

record proc_result =
  returncode :: int
  stdout :: string
  stderr :: string

datatype event =
  Rmapi "string list"  \<comment> \<open>\<open>subprocess.run\<close> with this argument vector\<close>
| ClaudeRequest string  \<comment> \<open>\<open>client.messages.create\<close> with this document content\<close>
| ArxivQuery string  \<comment> \<open>\<open>urlopen\<close> of the metadata query for this identifier\<close>
| ArxivDownload string "string option"
    \<comment> \<open>\<open>urlretrieve\<close> of this identifier's PDF to this path\<close>

datatype block = TextBlock string | OtherBlock

datatype json =
  JNull  \<comment> \<open>\<open>None\<close>\<close>
| JBool bool
| JNumber bool
    \<comment> \<open>an \<open>int\<close> or a \<open>float\<close>; the flag says whether it is non-zero, which is all the
        code can observe of a number\<close>
| JString string
| JArray "json list"  \<comment> \<open>a \<open>list\<close>\<close>
| JObject "(string \<times> json) list"
    \<comment> \<open>a \<open>dict\<close>, as its items in order; the keys are distinct\<close>

record env =
  setup_error :: "py_error option"  \<comment> \<open>the exception \<open>RMAPI.setup\<close> raises, if any\<close>
  api_key :: "string option"  \<comment> \<open>\<open>os.getenv("ANTHROPIC_API_KEY")\<close>\<close>
  first_page :: "string \<Rightarrow> py_error + string"  \<comment> \<open>\<open>extract_first_page(path)\<close>\<close>
  read_bytes :: "string \<Rightarrow> py_error + string"  \<comment> \<open>\<open>open(path, "rb").read()\<close>\<close>
  claude :: "string \<Rightarrow> py_error + block list"  \<comment> \<open>\<open>message.content\<close> for a document\<close>
  json_loads :: "string \<Rightarrow> json option"  \<comment> \<open>\<open>json.loads\<close>; \<open>None\<close> when it raises\<close>
  rmapi :: "event list \<Rightarrow> string list \<Rightarrow> proc_result"
    \<comment> \<open>what the bridge answers to a command, given the calls made before it\<close>
  arxiv_metadata :: "string \<Rightarrow> string option \<times> string option"
    \<comment> \<open>\<open>ArxivFetcher.get_metadata()\<close> for an identifier\<close>
  arxiv_download :: "string \<Rightarrow> bool"  \<comment> \<open>whether \<open>urlretrieve\<close> of the PDF succeeds\<close>

record state =
  trace :: "event list"
  files :: "string \<Rightarrow> bool"  \<comment> \<open>\<open>os.path.exists\<close>\<close>

definition falsy :: "string option \<Rightarrow> bool" where
  \<comment> \<open>\<open>not x\<close> for an \<open>x\<close> of type \<open>str | None\<close>\<close>
  "falsy x = (x = None \<or> x = Some [])"

definition or_else :: "string option \<Rightarrow> string \<Rightarrow> string" where
  \<comment> \<open>\<open>x if x else d\<close>\<close>
  "or_else x d = (case x of None \<Rightarrow> d | Some v \<Rightarrow> if v = [] then d else v)"

definition truthy :: "json \<Rightarrow> bool" where
  \<comment> \<open>the truth value of a Python value\<close>
  "truthy v =
     (case v of
        JNull \<Rightarrow> False
      | JBool b \<Rightarrow> b
      | JNumber nonzero \<Rightarrow> nonzero
      | JString s \<Rightarrow> s \<noteq> []
      | JArray xs \<Rightarrow> xs \<noteq> []
      | JObject kvs \<Rightarrow> kvs \<noteq> [])"

definition py_str :: "string option \<Rightarrow> json" where
  \<comment> \<open>an argument of type \<open>str | None\<close> as a value\<close>
  "py_str x = (case x of None \<Rightarrow> JNull | Some s \<Rightarrow> JString s)"

definition emit :: "event \<Rightarrow> state \<Rightarrow> state" where
  "emit e s = s\<lparr>trace := trace s @ [e]\<rparr>"

section \<open>Paths (pathlib)\<close>

fun path_parts :: "string \<Rightarrow> string \<Rightarrow> string list" where
  \<comment> \<open>the components of a POSIX path: empty and \<open>.\<close> components are dropped\<close>
  "path_parts cur [] = (if cur \<noteq> [] \<and> cur \<noteq> ''.'' then [cur] else [])"
| "path_parts cur (c # cs) =
     (if c = CHR ''/'' then
        (if cur \<noteq> [] \<and> cur \<noteq> ''.'' then cur # path_parts [] cs else path_parts [] cs)
      else path_parts (cur @ [c]) cs)"

definition path_name :: "string \<Rightarrow> string" where
  \<comment> \<open>\<open>Path(p).name\<close>\<close>
  "path_name p = (let parts = path_parts [] p in if parts = [] then [] else last parts)"

definition rfind_dot :: "string \<Rightarrow> int" where
  \<comment> \<open>\<open>name.rfind(".")\<close>\<close>
  "rfind_dot name =
     (if CHR ''.'' \<in> set name
      then int (length name) - 1 - int (length (takeWhile (\<lambda>c. c \<noteq> CHR ''.'') (rev name)))
      else - 1)"

definition path_stem :: "string \<Rightarrow> string" where
  \<comment> \<open>\<open>Path(p).stem\<close>: the name without its last suffix\<close>
  "path_stem p =
     (let name = path_name p; i = rfind_dot name in
      if 0 < i \<and> i < int (length name) - 1 then take (nat i) name else name)"

section \<open>Classifier Adapter (research\_paper\_util.py)\<close>

definition subscript :: "json \<Rightarrow> string \<Rightarrow> py_error + json" where
  \<comment> \<open>\<open>result[key]\<close> with a \<open>str\<close> key\<close>
  "subscript r k =
     (case r of
        JObject kvs \<Rightarrow> (case map_of kvs k of None \<Rightarrow> Inl KeyError | Some v \<Rightarrow> Inr v)
      | _ \<Rightarrow> Inl TypeError)"

definition parse_response :: "env \<Rightarrow> block list \<Rightarrow> py_error + json \<times> json" where
  \<comment> \<open>the body of the second \<open>try\<close> after \<open>messages.create\<close> has returned\<close>
  "parse_response e content =
     (case content of
        [] \<Rightarrow> Inl IndexError
      | TextBlock text # _ \<Rightarrow>
          (case json_loads e (strip latin1 text) of
             None \<Rightarrow> Inl JSONDecodeError
           | Some result \<Rightarrow>
               (case subscript result ''classification'' of
                  Inl err \<Rightarrow> Inl err
                | Inr c \<Rightarrow>
                    (case subscript result ''title'' of
                       Inl err \<Rightarrow> Inl err
                     | Inr t \<Rightarrow> Inr (c, t))))
      | OtherBlock # _ \<Rightarrow> Inr (JString [], JString []))"

definition analyze_paper_with_claude ::
  "env \<Rightarrow> string \<Rightarrow> state \<Rightarrow> (py_error + json \<times> json) \<times> state" where
  "analyze_paper_with_claude e paper_path s =
     (if falsy (api_key e) then (Inl ValueError, s)
      else
        case (case first_page e paper_path of
                Inr pdf \<Rightarrow> Inr pdf
              | Inl _ \<Rightarrow> read_bytes e paper_path) of
          Inl err \<Rightarrow> (Inl err, s)
        | Inr pdf_content \<Rightarrow>
            (let s' = emit (ClaudeRequest pdf_content) s in
             case (case claude e pdf_content of
                     Inl err \<Rightarrow> Inl err
                   | Inr content \<Rightarrow> parse_response e content) of
               Inr r \<Rightarrow> (Inr r, s')
             | Inl _ \<Rightarrow>
                 (Inr (JString ''Uncategorized'', JString (path_stem paper_path)), s')))"

section \<open>Remote Filing Engine (rmapi.py)\<close>

definition subprocess_run ::
  "env \<Rightarrow> string list \<Rightarrow> bool \<Rightarrow> state \<Rightarrow> (py_error + proc_result) \<times> state" where
  \<comment> \<open>\<open>subprocess.run(argv, capture_output=True, text=True, check=check)\<close>\<close>
  "subprocess_run e argv check s =
     (let r = rmapi e (trace s) argv; s' = emit (Rmapi argv) s in
      if check \<and> returncode r \<noteq> 0 then (Inl CalledProcessError, s') else (Inr r, s'))"

definition ensure_directory :: "env \<Rightarrow> string \<Rightarrow> state \<Rightarrow> bool \<times> state" where
  "ensure_directory e classification s =
     (case subprocess_run e [''./bin/rmapi'', ''ls'', ''/''] False s of
        (Inl _, s1) \<Rightarrow> (False, s1)
      | (Inr result, s1) \<Rightarrow>
          (case (if \<not> sublist ''papers'' (stdout result)
                 then subprocess_run e [''./bin/rmapi'', ''mkdir'', ''/papers''] True s1
                 else (Inr result, s1)) of
             (Inl _, s2) \<Rightarrow> (False, s2)
           | (Inr _, s2) \<Rightarrow>
               (case subprocess_run e [''./bin/rmapi'', ''ls'', ''/papers''] False s2 of
                  (Inl _, s3) \<Rightarrow> (False, s3)
                | (Inr result', s3) \<Rightarrow>
                    (case (if \<not> sublist classification (stdout result')
                           then subprocess_run e
                                  [''./bin/rmapi'', ''mkdir'', ''/papers/'' @ classification] True s3
                           else (Inr result', s3)) of
                       (Inl _, s4) \<Rightarrow> (False, s4)
                     | (Inr _, s4) \<Rightarrow> (True, s4)))))"

definition ensure_directory_not_str :: "env \<Rightarrow> state \<Rightarrow> (py_error + bool) \<times> state" where
  \<comment> \<open>\<open>ensure_directory\<close> called with a classification that is not a \<open>str\<close>: the test
      \<open>classification not in result.stdout\<close> raises \<open>TypeError\<close>, which is not caught\<close>
  "ensure_directory_not_str e s =
     (case subprocess_run e [''./bin/rmapi'', ''ls'', ''/''] False s of
        (Inl _, s1) \<Rightarrow> (Inr False, s1)
      | (Inr result, s1) \<Rightarrow>
          (case (if \<not> sublist ''papers'' (stdout result)
                 then subprocess_run e [''./bin/rmapi'', ''mkdir'', ''/papers''] True s1
                 else (Inr result, s1)) of
             (Inl _, s2) \<Rightarrow> (Inr False, s2)
           | (Inr _, s2) \<Rightarrow>
               (case subprocess_run e [''./bin/rmapi'', ''ls'', ''/papers''] False s2 of
                  (Inl _, s3) \<Rightarrow> (Inr False, s3)
                | (Inr _, s3) \<Rightarrow> (Inl TypeError, s3))))"

definition resolve_labels ::
  "env \<Rightarrow> string \<Rightarrow> string option \<Rightarrow> string option \<Rightarrow> state
     \<Rightarrow> (py_error + json \<times> json) \<times> state" where
  \<comment> \<open>\<open>upload_paper\<close>, the block \<open>if not title or not classification\<close>:
      the pair (title, classification) after it\<close>
  "resolve_labels e paper_path title classification s =
     (if falsy title \<or> falsy classification then
        (case analyze_paper_with_claude e paper_path s of
           (Inl err, s1) \<Rightarrow> (Inl err, s1)
         | (Inr (c, t), s1) \<Rightarrow>
             (Inr (if falsy title then t else py_str title,
                   if falsy classification then c else py_str classification), s1))
      else (Inr (py_str title, py_str classification), s))"

definition str_isalnum :: "string \<Rightarrow> bool" where
  \<comment> \<open>\<open>c.isalnum()\<close> for a \<open>str\<close> of any length\<close>
  "str_isalnum c = (c \<noteq> [] \<and> list_all (isalnum latin1) c)"

definition filename_from_items :: "json list \<Rightarrow> py_error + string" where
  \<comment> \<open>\<open>generate_formatted_filename(title)\<close> when iterating over \<open>title\<close> yields these
      items: an item that is not a \<open>str\<close> has no \<open>isalnum\<close>\<close>
  "filename_from_items items =
     (if list_ex (\<lambda>c. case c of JString _ \<Rightarrow> False | _ \<Rightarrow> True) items
      then Inl AttributeError
      else
        (let kept = filter (\<lambda>c. str_isalnum c \<or> c \<in> set ['' '', ''-'', ''_''])
                      (concat (map (\<lambda>c. case c of JString x \<Rightarrow> [x] | _ \<Rightarrow> []) items));
             safe_title = strip latin1 (concat kept)
         in Inr (join '' '' (split latin1 safe_title) @ ''.pdf'')))"

definition generate_formatted_filename_of :: "json \<Rightarrow> py_error + string" where
  \<comment> \<open>\<open>generate_formatted_filename(title)\<close> for whatever value \<open>title\<close> holds: a \<open>str\<close> is
      iterated by characters, a \<open>list\<close> by elements, a \<open>dict\<close> by keys, and nothing else
      can be iterated\<close>
  "generate_formatted_filename_of title =
     (case title of
        JString s \<Rightarrow> Inr (generate_formatted_filename latin1 s)
      | JArray xs \<Rightarrow> filename_from_items xs
      | JObject kvs \<Rightarrow> filename_from_items (map (\<lambda>kv. JString (fst kv)) kvs)
      | _ \<Rightarrow> Inl TypeError)"

definition output_name :: "string option \<Rightarrow> json \<Rightarrow> py_error + string" where
  \<comment> \<open>\<open>upload_paper\<close>, the block \<open>if not output_file_name\<close>: the name after it\<close>
  "output_name output_file_name title =
     (if falsy output_file_name then generate_formatted_filename_of title
      else Inr (or_else output_file_name []))"

definition put_and_rename ::
  "env \<Rightarrow> string \<Rightarrow> string \<Rightarrow> string \<Rightarrow> bool \<Rightarrow> state \<Rightarrow> bool \<times> state" where
  \<comment> \<open>\<open>upload_paper\<close>, its \<open>try\<close> block\<close>
  "put_and_rename e paper_path classification output_file_name dry_run s =
     (case (if \<not> dry_run
            then (case subprocess_run e
                         [''./bin/rmapi'', ''put'', paper_path, ''/papers/'' @ classification @ ''/'']
                         False s of
                    (Inl _, s1) \<Rightarrow> (False, s1)
                  | (Inr result, s1) \<Rightarrow> (returncode result = 0, s1))
            else (True, s)) of
        (False, s1) \<Rightarrow> (False, s1)
      | (True, s1) \<Rightarrow>
          (let original_name = path_name paper_path in
           if original_name \<noteq> output_file_name then
             (if \<not> dry_run then
                (case subprocess_run e
                        [''./bin/rmapi'', ''mv'',
                         ''/papers/'' @ classification @ ''/'' @ remove_pdf latin1 original_name,
                         ''/papers/'' @ classification @ ''/''
                           @ remove_pdf latin1 output_file_name]
                        True s1 of
                   (Inl _, s2) \<Rightarrow> (False, s2)
                 | (Inr _, s2) \<Rightarrow> (True, s2))
              else (True, s1))
           else (True, s1)))"

definition file_paper ::
  "env \<Rightarrow> string \<Rightarrow> json \<Rightarrow> json \<Rightarrow> string option \<Rightarrow> bool
     \<Rightarrow> state \<Rightarrow> (py_error + bool) \<times> state" where
  \<comment> \<open>\<open>upload_paper\<close> from \<open>if not output_file_name\<close> on, with the values the title and
      the classification have by then\<close>
  "file_paper e paper_path title classification output_file_name dry_run s =
     (case output_name output_file_name title of
        Inl err \<Rightarrow> (Inl err, s)
      | Inr output_file_name' \<Rightarrow>
          (case classification of
             JString c \<Rightarrow>
               (case ensure_directory e c s of
                  (False, s1) \<Rightarrow> (Inr False, s1)
                | (True, s1) \<Rightarrow>
                    (case put_and_rename e paper_path c output_file_name' dry_run s1 of
                       (ok, s2) \<Rightarrow> (Inr ok, s2)))
           | _ \<Rightarrow> ensure_directory_not_str e s))"

definition upload_paper ::
  "env \<Rightarrow> string option \<Rightarrow> string option \<Rightarrow> string option \<Rightarrow> string option \<Rightarrow> bool
     \<Rightarrow> state \<Rightarrow> (py_error + bool) \<times> state" where
  "upload_paper e paper_path title classification output_file_name dry_run s =
     (case paper_path of
        None \<Rightarrow> (Inl TypeError, s)  \<comment> \<open>\<open>os.path.exists(None)\<close>\<close>
      | Some path \<Rightarrow>
          if \<not> files s path then (Inr False, s)
          else
            (case resolve_labels e path title classification s of
               (Inl err, s1) \<Rightarrow> (Inl err, s1)
             | (Inr (title', classification'), s1) \<Rightarrow>
                 file_paper e path title' classification' output_file_name dry_run s1))"

section \<open>Identifier Resolver (arxiv\_fetcher.py)\<close>

definition isdigit09 :: "char \<Rightarrow> bool" where
  \<comment> \<open>the class \<open>[0-9]\<close>, and \<open>\d\<close> on ASCII text\<close>
  "isdigit09 c = (let n = (of_char c :: nat) in 48 \<le> n \<and> n \<le> 57)"

definition match_id :: "string \<Rightarrow> string option" where
  \<comment> \<open>\<open>([0-9]{4}\.[0-9]{4,5}(?:v\d+)?)\<close> matched at the start of the text, greedily:
      the text of the group\<close>
  "match_id s =
     (let year_month = take 4 s; r1 = drop 4 s in
      if length year_month = 4 \<and> list_all isdigit09 year_month \<and> prefix ''.'' r1 then
        (let digits = takeWhile isdigit09 (drop 1 r1) in
         if length digits < 4 then None
         else
           (let number = take 5 digits;
                r2 = drop (length number) (drop 1 r1);
                version =
                  (case r2 of
                     [] \<Rightarrow> []
                   | c # r3 \<Rightarrow>
                       if c = CHR ''v'' \<and> takeWhile isdigit09 r3 \<noteq> []
                       then c # takeWhile isdigit09 r3 else [])
            in Some (year_month @ ''.'' @ number @ version)))
      else None)"

definition expect :: "string \<Rightarrow> string \<Rightarrow> string option" where
  \<comment> \<open>a literal at the start of the text: the rest of the text\<close>
  "expect lit s = (if prefix lit s then Some (drop (length lit) s) else None)"

definition skip_opt :: "string \<Rightarrow> string \<Rightarrow> string list" where
  \<comment> \<open>an optional literal at the start of the text: the rests to try, the longer match first\<close>
  "skip_opt lit s = (if prefix lit s then [drop (length lit) s, s] else [s])"

fun first_some :: "('a \<Rightarrow> 'b option) \<Rightarrow> 'a list \<Rightarrow> 'b option" where
  "first_some f [] = None"
| "first_some f (x # xs) = (case f x of Some y \<Rightarrow> Some y | None \<Rightarrow> first_some f xs)"

definition match_url :: "string \<Rightarrow> string option" where
  \<comment> \<open>\<open>(?:https?://)?(?:www\.)?arxiv\.org/(?:abs|pdf)/(ID)\<close> at the start of the text\<close>
  "match_url s =
     first_some
       (\<lambda>r. case expect ''arxiv.org/'' r of
               None \<Rightarrow> None
             | Some r1 \<Rightarrow>
                 (case first_some (\<lambda>lit. expect lit r1) [''abs'', ''pdf''] of
                    None \<Rightarrow> None
                  | Some r2 \<Rightarrow>
                      (case expect ''/'' r2 of None \<Rightarrow> None | Some r3 \<Rightarrow> match_id r3)))
       (concat (map (skip_opt ''www.'')
          (if prefix ''https://'' s then [drop 8 s, s]
           else if prefix ''http://'' s then [drop 7 s, s] else [s])))"

definition match_prefixed :: "string \<Rightarrow> string option" where
  \<comment> \<open>\<open>(?:arxiv:)?(ID)\<close> at the start of the text\<close>
  "match_prefixed s = first_some match_id (skip_opt ''arxiv:'' s)"

definition match_whole :: "string \<Rightarrow> string option" where
  \<comment> \<open>\<open>^(ID)$\<close>: the whole text, a final newline allowed\<close>
  "match_whole s =
     (case match_id s of
        None \<Rightarrow> None
      | Some g \<Rightarrow> if s = g \<or> s = g @ [CHR 0x0A] then Some g else None)"

fun re_search :: "(string \<Rightarrow> 'a option) \<Rightarrow> string \<Rightarrow> 'a option" where
  \<comment> \<open>\<open>re.search\<close>: the match at the leftmost position that has one\<close>
  "re_search m [] = m []"
| "re_search m (c # cs) = (case m (c # cs) of Some g \<Rightarrow> Some g | None \<Rightarrow> re_search m cs)"

definition parse_id :: "string \<Rightarrow> string option" where
  "parse_id input_str =
     first_some (\<lambda>pattern. pattern (lower latin1 input_str))
       [re_search match_url, re_search match_prefixed, match_whole]"

definition download_paper :: "env \<Rightarrow> string \<Rightarrow> state \<Rightarrow> string option \<times> state" where
  \<comment> \<open>\<open>ArxivFetcher.download_paper()\<close> with no \<open>output_path\<close>\<close>
  "download_paper e document_id s =
     (let output_path =
            (if document_id \<noteq> []
             then Some (''/tmp/arxiv_''
                        @ map (\<lambda>c. if c = CHR ''/'' then CHR ''_'' else c) document_id
                        @ ''.pdf'')
             else None);
          s' = emit (ArxivDownload document_id output_path) s
      in if arxiv_download e document_id
         then (output_path,
               case output_path of
                 Some path \<Rightarrow> s'\<lparr>files := (files s')(path := True)\<rparr>
               | None \<Rightarrow> s')
         else (None, s'))"

section \<open>Intake Dispatcher (upload.py)\<close>

definition handle_arxiv_paper ::
  "env \<Rightarrow> string \<Rightarrow> bool \<Rightarrow> state \<Rightarrow> (py_error + bool option) \<times> state" where
  \<comment> \<open>the value is \<open>Some b\<close> for a returned \<open>bool\<close>, \<open>None\<close> for Python's \<open>None\<close>\<close>
  "handle_arxiv_paper e document_id dry_run s =
     (case (arxiv_metadata e document_id, emit (ArxivQuery document_id) s) of
        ((title, category), s1) \<Rightarrow>
          if falsy title then (Inr (Some False), s1)
          else
            (case download_paper e document_id s1 of
               (output_path, s2) \<Rightarrow>
                 \<comment> \<open>\<open>short_title\<close> is computed here and only printed\<close>
                 (case upload_paper e output_path title category None dry_run s2 of
                    (Inl err, s3) \<Rightarrow> (Inl err, s3)
                  | (Inr _, s3) \<Rightarrow> (Inr None, s3))))"

datatype outcome =
  SysExit int  \<comment> \<open>\<open>sys.exit(n)\<close>\<close>
| Uncaught py_error  \<comment> \<open>an exception leaves \<open>main\<close>\<close>
| Returned  \<comment> \<open>\<open>main\<close> returns\<close>

definition exit_code :: "outcome \<Rightarrow> int" where
  \<comment> \<open>the exit status of the interpreter\<close>
  "exit_code out = (case out of SysExit n \<Rightarrow> n | Uncaught _ \<Rightarrow> 1 | Returned \<Rightarrow> 0)"

definition main :: "env \<Rightarrow> string option \<Rightarrow> bool \<Rightarrow> state \<Rightarrow> outcome \<times> state" where
  \<comment> \<open>\<open>main\<close> with \<open>args.paper\<close> and \<open>args.dry_run\<close> parsed\<close>
  "main e paper dry_run s =
     (case setup_error e of
        Some err \<Rightarrow> (Uncaught err, s)
      | None \<Rightarrow>
          if falsy paper then (Returned, s)
          else
            (case parse_id (or_else paper []) of
               Some document_id \<Rightarrow>
                 (case handle_arxiv_paper e document_id dry_run s of
                    (Inl err, s') \<Rightarrow> (Uncaught err, s')
                  | (Inr success, s') \<Rightarrow> (SysExit (if success = Some True then 0 else 1), s'))
             | None \<Rightarrow>
                 (case upload_paper e paper None None None dry_run s of
                    (Inl err, s') \<Rightarrow> (Uncaught err, s')
                  | (Inr success, s') \<Rightarrow> (SysExit (if success then 0 else 1), s'))))"

section \<open>Notions used in the statements\<close>

definition token :: "'c unicode \<Rightarrow> 'c list \<Rightarrow> bool" where
  \<comment> \<open>a non-empty word without whitespace\<close>
  "token U w = (w \<noteq> [] \<and> (\<forall>c\<in>set w. \<not> isspace U c))"

definition distinct_clean_words :: "'c unicode \<Rightarrow> 'c list \<Rightarrow> nat" where
  \<comment> \<open>how many different non-empty words the title has once punctuation is removed\<close>
  "distinct_clean_words U title =
     card (set (filter (\<lambda>w. w \<noteq> []) (map (clean_word U) (split U title))))"

definition emitted :: "state \<Rightarrow> state \<Rightarrow> event list" where
  \<comment> \<open>the external calls made between two states of one run\<close>
  "emitted s s' = drop (length (trace s)) (trace s')"

fun verb :: "event \<Rightarrow> string" where
  \<comment> \<open>the bridge operation of a call\<close>
  "verb (Rmapi (_ # v # _)) = v"
| "verb _ = []"

abbreviation ls_root :: "string list" where
  "ls_root \<equiv> [''./bin/rmapi'', ''ls'', ''/'']"

abbreviation mkdir_papers :: "string list" where
  "mkdir_papers \<equiv> [''./bin/rmapi'', ''mkdir'', ''/papers'']"

abbreviation ls_papers :: "string list" where
  "ls_papers \<equiv> [''./bin/rmapi'', ''ls'', ''/papers'']"

abbreviation mkdir_category :: "string \<Rightarrow> string list" where
  "mkdir_category c \<equiv> [''./bin/rmapi'', ''mkdir'', ''/papers/'' @ c]"

section \<open>Scenarios\<close>

text \<open>Concrete environments, on which the statements below are evaluated.\<close>

definition bridge ::
  "(string list \<Rightarrow> int) \<Rightarrow> string \<Rightarrow> event list \<Rightarrow> string list \<Rightarrow> proc_result" where
  \<comment> \<open>a bridge with the given exit status for each command, whose listings print the given text\<close>
  "bridge status listing h argv =
     \<lparr>returncode = status argv,
      stdout = (if verb (Rmapi argv) = ''ls'' then listing else []),
      stderr = []\<rparr>"

definition answer :: string where
  \<open>answer = ''{"classification": "Physics", "title": "Dark Matter Survey"}''\<close>

definition scenario :: "(event list \<Rightarrow> string list \<Rightarrow> proc_result) \<Rightarrow> env" where
  \<comment> \<open>credentials are set, the oracle answers \<open>answer\<close>, arXiv answers, the bridge is as given\<close>
  "scenario b =
     \<lparr>setup_error = None,
      api_key = Some ''sk-test'',
      first_page = (\<lambda>p. Inr ''%PDF page 1''),
      read_bytes = (\<lambda>p. Inr ''%PDF''),
      claude = (\<lambda>d. Inr [TextBlock answer]),
      json_loads = (\<lambda>t. if t = answer
         then Some (JObject [(''classification'', JString ''Physics''),
                             (''title'', JString ''Dark Matter Survey'')])
         else None),
      rmapi = b,
      arxiv_metadata = (\<lambda>i. (Some ''Attention Is All You Need'', Some ''ComputerScience'')),
      arxiv_download = (\<lambda>i. True)\<rparr>"

definition start :: state where
  \<comment> \<open>nothing has been called yet; one local file exists\<close>
  "start = \<lparr>trace = [], files = (\<lambda>p. p = ''/home/u/paper.pdf'')\<rparr>"

abbreviation put_command :: "string \<Rightarrow> string \<Rightarrow> string list" where
  "put_command p c \<equiv> [''./bin/rmapi'', ''put'', p, ''/papers/'' @ c @ ''/'']"

abbreviation mv_command :: "string \<Rightarrow> string \<Rightarrow> string \<Rightarrow> string list" where
  "mv_command c old new \<equiv>
     [''./bin/rmapi'', ''mv'', ''/papers/'' @ c @ ''/'' @ remove_pdf latin1 old,
      ''/papers/'' @ c @ ''/'' @ remove_pdf latin1 new]"

definition quiet :: "event \<Rightarrow> bool" where
  \<comment> \<open>a call that is neither an upload nor a rename\<close>
  "quiet ev = (verb ev \<noteq> ''put'' \<and> verb ev \<noteq> ''mv'')"


section \<open>Splitting and joining\<close>

lemma split_from_nonspace:
  "\<forall>c\<in>set w. \<not> isspace U c \<Longrightarrow> split_from U cur (w @ s) = split_from U (cur @ w) s"
  by (induction w arbitrary: cur) auto

lemma split_from_spaces:
  "\<forall>c\<in>set ys. isspace U c \<Longrightarrow> split_from U cur ys = (if cur = [] then [] else [cur])"
  by (induction ys arbitrary: cur) auto

lemma split_from_trailing:
  "\<forall>c\<in>set ys. isspace U c \<Longrightarrow> split_from U cur (xs @ ys) = split_from U cur xs"
  by (induction xs arbitrary: cur) (auto simp: split_from_spaces)

lemma split_from_leading:
  "split_from U [] (dropWhile (isspace U) xs) = split_from U [] xs"
  by (induction xs) auto

lemma split_strip: "split U (strip U s) = split U s"
proof -
  let ?t = "dropWhile (isspace U) s"
  have "?t = rev (dropWhile (isspace U) (rev ?t)) @ rev (takeWhile (isspace U) (rev ?t))"
    by (metis rev_append rev_rev_ident takeWhile_dropWhile_id)
  moreover have "\<forall>c\<in>set (rev (takeWhile (isspace U) (rev ?t))). isspace U c"
    by (auto dest: set_takeWhileD)
  ultimately have "split_from U [] ?t = split_from U [] (rev (dropWhile (isspace U) (rev ?t)))"
    by (metis split_from_trailing)
  then show ?thesis by (simp add: split_def strip_def split_from_leading)
qed

lemma split_from_tokens:
  "\<forall>c\<in>set cur. \<not> isspace U c \<Longrightarrow> t \<in> set (split_from U cur s)
     \<Longrightarrow> token U t \<and> set t \<subseteq> set cur \<union> set s"
proof (induction s arbitrary: cur)
  case Nil
  then show ?case by (auto simp: token_def split: if_splits)
next
  case (Cons c cs)
  show ?case
  proof (cases "isspace U c")
    case True
    with Cons.prems Cons.IH[of "[]"] show ?thesis
      by (auto simp: token_def split: if_splits)
  next
    case False
    with Cons.prems Cons.IH[of "cur @ [c]"] show ?thesis
      by auto
  qed
qed

lemma split_tokens: "t \<in> set (split U s) \<Longrightarrow> token U t"
  using split_from_tokens[of "[]" U t s] by (simp add: split_def)

lemma split_chars: "t \<in> set (split U s) \<Longrightarrow> set t \<subseteq> set s"
  using split_from_tokens[of "[]" U t s] by (simp add: split_def)

lemma split_join:
  assumes "isspace U sp" and "\<forall>w\<in>set ws. token U w"
  shows "split U (join [sp] ws) = ws"
  using assms(2)
proof (induction ws rule: induct_list012)
  case 1
  then show ?case by (simp add: split_def)
next
  case (2 w)
  then have "split_from U [] (w @ []) = split_from U ([] @ w) []"
    by (intro split_from_nonspace) (simp add: token_def)
  with 2 show ?case by (simp add: split_def token_def)
next
  case (3 w v ws)
  then have "split_from U [] (w @ [sp] @ join [sp] (v # ws))
      = split_from U ([] @ w) ([sp] @ join [sp] (v # ws))"
    by (intro split_from_nonspace) (simp add: token_def)
  then show ?case using 3 assms(1) by (simp add: split_def token_def)
qed

lemma set_join: "set (join [sp] ws) \<subseteq> insert sp (\<Union>(set ` set ws))"
  by (induction ws rule: induct_list012) auto

lemma space_lit: "str_lit U '' '' = [of_ascii U CHR '' '']"
  by (simp add: str_lit_def)

lemma safe_title_chars: "c \<in> set (safe_title U s) \<Longrightarrow> safe_char U c"
proof -
  assume "c \<in> set (safe_title U s)"
  then have "c = of_ascii U CHR '' ''
      \<or> (\<exists>t\<in>set (split U (strip U (filter (safe_char U) s))). c \<in> set t)"
    using set_join[of "of_ascii U CHR '' ''" "split U (strip U (filter (safe_char U) s))"]
    by (auto simp: safe_title_def space_lit)
  then show "safe_char U c"
  proof
    assume "c = of_ascii U CHR '' ''"
    then show ?thesis by (simp add: safe_char_def str_lit_def)
  next
    assume "\<exists>t\<in>set (split U (strip U (filter (safe_char U) s))). c \<in> set t"
    then have "c \<in> set (strip U (filter (safe_char U) s))" using split_chars by blast
    then have "c \<in> set (filter (safe_char U) s)"
      unfolding strip_def by (auto dest!: set_dropWhileD)
    then show ?thesis by simp
  qed
qed

lemma safe_title_idem:
  assumes "isspace U (of_ascii U CHR '' '')"
  shows "safe_title U (safe_title U s) = safe_title U s"
proof -
  let ?ws = "split U (strip U (filter (safe_char U) s))"
  have f: "filter (safe_char U) (safe_title U s) = safe_title U s"
    by (simp add: safe_title_chars)
  have "split U (strip U (safe_title U s)) = split U (join [of_ascii U CHR '' ''] ?ws)"
    by (simp add: split_strip safe_title_def space_lit)
  also have "\<dots> = ?ws" by (rule split_join [OF assms]) (simp add: split_tokens)
  finally show ?thesis using f by (simp add: safe_title_def space_lit)
qed

lemma remove_pdf_no_dot:
  "of_ascii U CHR ''.'' \<notin> set x \<Longrightarrow> remove_pdf U (x @ str_lit U ''.pdf'') = x"
  by (induction x) (auto simp: str_lit_def)

lemma safe_title_no_dot:
  assumes "\<not> isalnum U (of_ascii U CHR ''.'')" and "inj (of_ascii U)"
  shows "of_ascii U CHR ''.'' \<notin> set (safe_title U s)"
proof
  assume "of_ascii U CHR ''.'' \<in> set (safe_title U s)"
  then have "safe_char U (of_ascii U CHR ''.'')" by (rule safe_title_chars)
  with assms(1) have "of_ascii U CHR ''.'' \<in> of_ascii U ` set '' -_''"
    by (simp add: safe_char_def str_lit_def)
  with assms(2) have "CHR ''.'' \<in> set '' -_''" by (auto dest: injD)
  then show False by simp
qed

section \<open>The Filename Normalizer\<close>

text \<open>
  Claim C8. For every character table in which the space is whitespace and the full stop
  is not alphanumeric, as in Unicode, and for every string \<open>s\<close>:
  \<open>generate_formatted_filename\<close> returns (the model has no failing branch: the function
  only filters, trims, splits and joins), its result is a stem followed by \<open>.pdf\<close>, and
  applying it to its own result with the extension stripped (as \<open>upload_paper\<close> strips it,
  by \<open>replace('.pdf', '')\<close>) gives the same result again.
\<close>

theorem generate_formatted_filename_idempotent:
  assumes "isspace U (of_ascii U CHR '' '')" and "\<not> isalnum U (of_ascii U CHR ''.'')"
    and "inj (of_ascii U)"
  shows "\<exists>stem. generate_formatted_filename U s = stem @ str_lit U ''.pdf''
     \<and> remove_pdf U (generate_formatted_filename U s) = stem
     \<and> generate_formatted_filename U (remove_pdf U (generate_formatted_filename U s))
         = generate_formatted_filename U s"
  by (simp add: generate_formatted_filename_def remove_pdf_no_dot
        safe_title_no_dot [OF assms(2,3)] safe_title_idem [OF assms(1)])

theorem generate_formatted_filename_idempotent_witness:
  "isspace latin1 (of_ascii latin1 CHR '' '') \<and> \<not> isalnum latin1 (of_ascii latin1 CHR ''.'')
   \<and> inj (of_ascii latin1)
   \<and> generate_formatted_filename latin1 '''' = ''.pdf''
   \<and> generate_formatted_filename latin1 ''?!'' = ''.pdf''
   \<and> generate_formatted_filename latin1 (''caf'' @ [CHR 0xE9] @ '' na'' @ [CHR 0xEF] @ ''ve'')
       = ''caf'' @ [CHR 0xE9] @ '' na'' @ [CHR 0xEF] @ ''ve.pdf''
   \<and> generate_formatted_filename latin1
        (remove_pdf latin1 (generate_formatted_filename latin1 ''  Dark: Matter  ''))
       = generate_formatted_filename latin1 ''  Dark: Matter  ''"
proof -
  have u: "generate_formatted_filename latin1 (''caf'' @ [CHR 0xE9] @ '' na'' @ [CHR 0xEF] @ ''ve'')
       = ''caf'' @ [CHR 0xE9] @ '' na'' @ [CHR 0xEF] @ ''ve.pdf''"
    by code_simp
  have a: "isspace latin1 (of_ascii latin1 CHR '' '')" by code_simp
  have b: "\<not> isalnum latin1 (of_ascii latin1 CHR ''.'')" by code_simp
  have c: "inj (of_ascii latin1)" by (simp add: latin1_def inj_def)
  have d: "generate_formatted_filename latin1 '''' = ''.pdf''" by code_simp
  have e: "generate_formatted_filename latin1 ''?!'' = ''.pdf''" by code_simp
  from generate_formatted_filename_idempotent [OF a b c, of "''  Dark: Matter  ''"]
  have "generate_formatted_filename latin1
        (remove_pdf latin1 (generate_formatted_filename latin1 ''  Dark: Matter  ''))
       = generate_formatted_filename latin1 ''  Dark: Matter  ''"
    by blast
  with a b c d e u show ?thesis by (simp only: simp_thms)
qed

section \<open>Shortened titles\<close>

lemma collect_upper:
  "int (length (collect_key_words U m key ws)) \<le> max m (int (length key) + 1)"
  by (induction U m key ws rule: collect_key_words.induct) (auto simp: Let_def)

lemma clean_word_token: "token U w \<Longrightarrow> clean_word U w \<noteq> [] \<Longrightarrow> token U (clean_word U w)"
  by (auto simp: token_def clean_word_def)

lemma collect_tokens:
  "\<forall>k\<in>set key. token U k \<Longrightarrow> \<forall>w\<in>set ws. token U w
     \<Longrightarrow> k \<in> set (collect_key_words U m key ws) \<Longrightarrow> token U k"
proof (induction U m key ws rule: collect_key_words.induct)
  case (1 U m key)
  then show ?case by simp
next
  case (2 U m key word ws)
  have tk: "clean_word U word \<noteq> [] \<Longrightarrow> token U (clean_word U word)"
    using "2.prems"(2) by (simp add: clean_word_token)
  show ?case
  proof (cases "lower U (clean_word U word) \<notin> set (map (str_lit U) stop_words)
      \<and> clean_word U word \<noteq> []")
    case True
    show ?thesis
    proof (cases "int (length (key @ [clean_word U word])) \<ge> m")
      case stop: True
      with True "2.prems" tk show ?thesis by (auto simp: Let_def)
    next
      case False
      with True "2.prems" tk "2.IH"(1)[OF refl _ refl] show ?thesis by (auto simp: Let_def)
    qed
  next
    case False
    with "2.prems" "2.IH"(2)[OF refl] show ?thesis by (auto simp: Let_def)
  qed
qed

lemma add_back_upper:
  "length key < 4 \<Longrightarrow> length (add_back U key ws) \<le> 4"
  by (induction U key ws rule: add_back.induct) (auto simp: Let_def)

lemma add_back_mono: "set key \<subseteq> set (add_back U key ws)"
  by (induction U key ws rule: add_back.induct) (auto simp: Let_def)

lemma add_back_complete:
  "length (add_back U key ws) \<ge> 4 \<or>
   (\<forall>w\<in>set ws. clean_word U w \<noteq> [] \<longrightarrow> clean_word U w \<in> set (add_back U key ws))"
proof (induction U key ws rule: add_back.induct)
  case (1 U key)
  then show ?case by simp
next
  case (2 U key word ws)
  show ?case
  proof (cases "clean_word U word \<noteq> [] \<and> clean_word U word \<notin> set key")
    case True
    show ?thesis
    proof (cases "length (key @ [clean_word U word]) \<ge> 4")
      case stop: True
      with True show ?thesis by (simp add: Let_def)
    next
      case False
      with True "2.IH"(1)[OF refl _ refl] add_back_mono[of "key @ [clean_word U word]" U ws]
      show ?thesis by (auto simp: Let_def)
    qed
  next
    case False
    with "2.IH"(2)[OF refl] add_back_mono[of key U ws] show ?thesis by (auto simp: Let_def)
  qed
qed

lemma add_back_tokens:
  "\<forall>k\<in>set key. token U k \<Longrightarrow> \<forall>w\<in>set ws. token U w
     \<Longrightarrow> k \<in> set (add_back U key ws) \<Longrightarrow> token U k"
proof (induction U key ws rule: add_back.induct)
  case (1 U key)
  then show ?case by simp
next
  case (2 U key word ws)
  have tk: "clean_word U word \<noteq> [] \<Longrightarrow> token U (clean_word U word)"
    using "2.prems"(2) by (simp add: clean_word_token)
  show ?case
  proof (cases "clean_word U word \<noteq> [] \<and> clean_word U word \<notin> set key")
    case True
    show ?thesis
    proof (cases "length (key @ [clean_word U word]) \<ge> 4")
      case stop: True
      with True "2.prems" tk show ?thesis by (auto simp: Let_def)
    next
      case False
      with True "2.prems" tk "2.IH"(1)[OF refl _ refl] show ?thesis by (auto simp: Let_def)
    qed
  next
    case False
    with "2.prems" "2.IH"(2)[OF refl] show ?thesis by (auto simp: Let_def)
  qed
qed

lemma shorten_key_tokens: "k \<in> set (shorten_key_words U title m) \<Longrightarrow> token U k"
proof -
  assume a: "k \<in> set (shorten_key_words U title m)"
  have w: "\<forall>w\<in>set (split U title). token U w" by (simp add: split_tokens)
  have c: "\<forall>k\<in>set (collect_key_words U m [] (split U title)). token U k"
    using collect_tokens[OF _ w, of "[]" _ m] by auto
  show "token U k"
    using a c add_back_tokens[OF c w]
    by (auto simp: shorten_key_words_def Let_def split: if_splits)
qed

lemma shorten_token_count:
  assumes "isspace U (of_ascii U CHR '' '')"
  shows "length (split U (shorten_title_for_filename U title m))
     = length (shorten_key_words U title m)"
  by (simp add: shorten_title_for_filename_def space_lit split_join [OF assms] shorten_key_tokens)

lemma shorten_key_upper: "int (length (shorten_key_words U title m)) \<le> max m 4"
proof -
  let ?key = "collect_key_words U m [] (split U title)"
  have u: "int (length ?key) \<le> max m 1" using collect_upper[of U m "[]" "split U title"] by simp
  show ?thesis
  proof (cases "length ?key < 3 \<and> length (split U title) > length ?key")
    case True
    then have "length (add_back U ?key (split U title)) \<le> 4" by (intro add_back_upper) simp
    with True show ?thesis by (simp add: shorten_key_words_def Let_def)
  next
    case False
    with u show ?thesis by (auto simp: shorten_key_words_def Let_def)
  qed
qed

lemma shorten_key_lower:
  "min 3 (distinct_clean_words U title) \<le> length (shorten_key_words U title m)"
proof -
  let ?ws = "split U title"
  let ?key = "collect_key_words U m [] ?ws"
  let ?D = "set (filter (\<lambda>w. w \<noteq> []) (map (clean_word U) ?ws))"
  have dw: "card ?D \<le> length ?ws"
    by (rule order_trans[OF card_length]) (simp add: order_trans[OF length_filter_le])
  show ?thesis
  proof (cases "length ?key < 3 \<and> length ?ws > length ?key")
    case True
    then have r: "shorten_key_words U title m = add_back U ?key ?ws"
      by (simp add: shorten_key_words_def Let_def)
    from add_back_complete[of U ?key ?ws] show ?thesis
    proof
      assume "4 \<le> length (add_back U ?key ?ws)"
      with r show ?thesis by simp
    next
      assume "\<forall>w\<in>set ?ws. clean_word U w \<noteq> [] \<longrightarrow> clean_word U w \<in> set (add_back U ?key ?ws)"
      then have "?D \<subseteq> set (add_back U ?key ?ws)" by auto
      then have "card ?D \<le> card (set (add_back U ?key ?ws))" by (intro card_mono) auto
      also have "\<dots> \<le> length (add_back U ?key ?ws)" by (rule card_length)
      finally show ?thesis using r by (simp add: distinct_clean_words_def)
    qed
  next
    case False
    then have r: "shorten_key_words U title m = ?key"
      by (auto simp: shorten_key_words_def Let_def)
    from False dw show ?thesis unfolding r distinct_clean_words_def by linarith
  qed
qed

text \<open>
  Claim C7 as stated fails twice. With \<open>max_words = 1\<close> the title
  \<open>the quick brown fox\<close> is shortened to four words, more than \<open>max_words\<close>; and the
  title \<open>the the the\<close>, of three raw words, is shortened to the single word \<open>the\<close>,
  fewer than \<open>min(3, 3)\<close>.
\<close>

theorem shorten_bounds_counterexample:
  "\<not> int (length (split latin1 (shorten_title_for_filename latin1 ''the quick brown fox'' 1))) \<le> 1
   \<and> length (split latin1 ''the the the'') = 3
   \<and> \<not> min 3 (length (split latin1 ''the the the''))
         \<le> length (split latin1 (shorten_title_for_filename latin1 ''the the the'' 6))"
  by code_simp

text \<open>
  Claim C7, amended. For every character table in which the space is whitespace, as in
  Unicode, and every title: when \<open>max_words\<close> is at least 4, as the default 6 is, the
  shortened title has at most \<open>max_words\<close> words; whatever \<open>max_words\<close> is, it has at
  most \<open>max(max_words, 4)\<close> words, and at least \<open>min(3, d)\<close> words, where \<open>d\<close> counts the
  different non-empty words of the title after punctuation has been removed.
\<close>

theorem shorten_bounds:
  assumes "isspace U (of_ascii U CHR '' '')"
  shows "(4 \<le> max_words
      \<longrightarrow> int (length (split U (shorten_title_for_filename U title max_words))) \<le> max_words)
   \<and> int (length (split U (shorten_title_for_filename U title max_words))) \<le> max max_words 4
   \<and> min 3 (distinct_clean_words U title)
       \<le> length (split U (shorten_title_for_filename U title max_words))"
proof -
  have "int (length (shorten_key_words U title max_words)) \<le> max max_words 4"
    by (rule shorten_key_upper)
  moreover have "min 3 (distinct_clean_words U title)
      \<le> length (shorten_key_words U title max_words)"
    by (rule shorten_key_lower)
  ultimately show ?thesis
    unfolding shorten_token_count [OF assms] by linarith
qed

theorem shorten_bounds_witness:
  "isspace latin1 (of_ascii latin1 CHR '' '') \<and> (4::int) \<le> 6
   \<and> int (length (split latin1 (shorten_title_for_filename latin1
      ''A Survey of Dark Matter in the Early Universe'' 6))) \<le> 6
   \<and> 3 \<le> length (split latin1 (shorten_title_for_filename latin1
      ''A Survey of Dark Matter in the Early Universe'' 6))
   \<and> shorten_title_for_filename latin1 [CHR 0xE9, CHR '' '', CHR 0xE8, CHR 0xA0, CHR 0xE0] 6
       = [CHR 0xE9, CHR '' '', CHR 0xE8, CHR '' '', CHR 0xE0]"
proof -
  have a: "isspace latin1 (of_ascii latin1 CHR '' '')" by code_simp
  have u: "shorten_title_for_filename latin1 [CHR 0xE9, CHR '' '', CHR 0xE8, CHR 0xA0, CHR 0xE0] 6
       = [CHR 0xE9, CHR '' '', CHR 0xE8, CHR '' '', CHR 0xE0]"
    by code_simp
  have "distinct_clean_words latin1 ''A Survey of Dark Matter in the Early Universe'' = 9"
    by code_simp
  then have "int (length (split latin1 (shorten_title_for_filename latin1
      ''A Survey of Dark Matter in the Early Universe'' 6))) \<le> 6
   \<and> 3 \<le> length (split latin1 (shorten_title_for_filename latin1
      ''A Survey of Dark Matter in the Early Universe'' 6))"
    using shorten_bounds [OF a, of 6 "''A Survey of Dark Matter in the Early Universe''"]
    by simp
  with a u show ?thesis by simp
qed

section \<open>Ensuring the remote directories\<close>

lemma ensure_directory_unfold:
  "ensure_directory e c s =
     (let t1 = trace s @ [Rmapi ls_root];
          create_papers = (\<not> sublist ''papers'' (stdout (rmapi e (trace s) ls_root)))
      in if create_papers \<and> returncode (rmapi e t1 mkdir_papers) \<noteq> 0
         then (False, s\<lparr>trace := t1 @ [Rmapi mkdir_papers]\<rparr>)
         else
           (let t2 = t1 @ (if create_papers then [Rmapi mkdir_papers] else []);
                t3 = t2 @ [Rmapi ls_papers]
            in if \<not> sublist c (stdout (rmapi e t2 ls_papers))
               then (returncode (rmapi e t3 (mkdir_category c)) = 0,
                     s\<lparr>trace := t3 @ [Rmapi (mkdir_category c)]\<rparr>)
               else (True, s\<lparr>trace := t3\<rparr>)))"
  by (simp add: ensure_directory_def subprocess_run_def emit_def Let_def)

text \<open>
  Claim C9. \<open>ensure_directory\<close> lists the root; it creates \<open>/papers\<close> exactly when
  \<open>papers\<close> is not a substring of that listing's output; unless that creation fails, it
  then lists \<open>/papers\<close> and creates \<open>/papers/<category>\<close> exactly when the category is
  not a substring of the second listing's output. These are all the calls it makes. So
  when the listing of \<open>/papers\<close> contains the category's name, the category is not
  created.
\<close>

theorem ensure_directory_calls:
  "let root = rmapi e (trace s) ls_root;
       create_papers = (\<not> sublist ''papers'' (stdout root));
       mkdir_failed =
         (create_papers \<and> returncode (rmapi e (trace s @ [Rmapi ls_root]) mkdir_papers) \<noteq> 0);
       h = trace s @ Rmapi ls_root # (if create_papers then [Rmapi mkdir_papers] else []);
       listing = rmapi e h ls_papers;
       calls = emitted s (snd (ensure_directory e c s))
   in calls =
        Rmapi ls_root # (if create_papers then [Rmapi mkdir_papers] else []) @
        (if mkdir_failed then []
         else Rmapi ls_papers #
              (if \<not> sublist c (stdout listing) then [Rmapi (mkdir_category c)] else []))
      \<and> (\<forall>before after. \<not> mkdir_failed \<and> stdout listing = before @ c @ after
            \<longrightarrow> Rmapi (mkdir_category c) \<notin> set calls)"
proof -
  have sub: "\<And>before after x. x = before @ c @ after \<Longrightarrow> sublist c x"
    by (auto simp: sublist_def)
  show ?thesis
    by (auto simp: ensure_directory_unfold emitted_def Let_def dest: sub)
qed

theorem ensure_directory_calls_witness:
  "stdout (rmapi (scenario (bridge (\<lambda>a. 0) ''[d] papers\<newline>[d] Physics\<newline>''))
             [Rmapi ls_root] ls_papers)
     = ''[d] papers\<newline>[d] '' @ ''Physics'' @ ''\<newline>''
   \<and> Rmapi (mkdir_category ''Physics'')
       \<notin> set (emitted start (snd (ensure_directory
            (scenario (bridge (\<lambda>a. 0) ''[d] papers\<newline>[d] Physics\<newline>'')) ''Physics'' start)))
   \<and> emitted start (snd (ensure_directory
        (scenario (bridge (\<lambda>a. 0) ''[d] papers\<newline>[d] Physics\<newline>'')) ''Physics'' start))
       = [Rmapi ls_root, Rmapi ls_papers]"
proof -
  let ?e = "scenario (bridge (\<lambda>a. 0) ''[d] papers\<newline>[d] Physics\<newline>'')"
  have root: "sublist ''papers'' (stdout (rmapi ?e (trace start) ls_root))"
    by (simp add: scenario_def bridge_def sublist_Cons_right)
  have listing: "stdout (rmapi ?e [Rmapi ls_root] ls_papers)
      = ''[d] papers\<newline>[d] '' @ ''Physics'' @ ''\<newline>''"
    by (simp add: scenario_def bridge_def)
  then have here: "sublist ''Physics'' (stdout (rmapi ?e [Rmapi ls_root] ls_papers))"
    by (simp only: sublist_appendI)
  have t: "trace start = []" by (simp add: start_def)
  from ensure_directory_calls [of ?e start "''Physics''"] root here listing
  show ?thesis by (simp add: Let_def t)
qed

text \<open>
  Claim C10 as stated fails for the empty category, which \<open>upload_paper\<close> passes on when
  the oracle's first content block is not text: the empty string is found in every listing
  output, so after a failed listing of \<open>/papers\<close> with empty output no directory is
  created for it.
\<close>

theorem ensure_directory_failure_counterexample:
  "returncode (rmapi (scenario (bridge (\<lambda>a. if verb (Rmapi a) = ''ls'' then 1 else 0) []))
      [Rmapi ls_root, Rmapi mkdir_papers] ls_papers) = 1
   \<and> stdout (rmapi (scenario (bridge (\<lambda>a. if verb (Rmapi a) = ''ls'' then 1 else 0) []))
      [Rmapi ls_root, Rmapi mkdir_papers] ls_papers) = []
   \<and> emitted start (snd (ensure_directory
        (scenario (bridge (\<lambda>a. if verb (Rmapi a) = ''ls'' then 1 else 0) [])) [] start))
       = [Rmapi ls_root, Rmapi mkdir_papers, Rmapi ls_papers]
   \<and> fst (ensure_directory
        (scenario (bridge (\<lambda>a. if verb (Rmapi a) = ''ls'' then 1 else 0) [])) [] start)"
  by (simp add: ensure_directory_unfold emitted_def Let_def scenario_def bridge_def start_def)

text \<open>
  Claim C10, amended. \<open>ensure_directory\<close> returns \<open>False\<close> exactly when the last call it
  made is a \<open>mkdir\<close> that exited with a non-zero status. The exit status of a listing is
  never examined: replacing the statuses of all listings by any others changes neither the
  result nor the calls. Only the output of a listing is searched, so a listing with empty
  output, failed or not, leads to \<open>mkdir /papers\<close>, and to \<open>mkdir /papers/<category>\<close>
  for every non-empty category; for the empty category no directory is ever created.
\<close>

theorem ensure_directory_failure:
  "let r = ensure_directory e c s;
       calls = emitted s (snd r);
       root = rmapi e (trace s) ls_root;
       create_papers = (\<not> sublist ''papers'' (stdout root));
       mkdir_failed =
         (create_papers \<and> returncode (rmapi e (trace s @ [Rmapi ls_root]) mkdir_papers) \<noteq> 0);
       h = trace s @ Rmapi ls_root # (if create_papers then [Rmapi mkdir_papers] else []);
       listing = rmapi e h ls_papers
   in (\<not> fst r \<longleftrightarrow>
         verb (last calls) = ''mkdir''
         \<and> (\<exists>argv. last calls = Rmapi argv
               \<and> returncode (rmapi e (butlast (trace (snd r))) argv) \<noteq> 0))
      \<and> (stdout root = [] \<longrightarrow> Rmapi mkdir_papers \<in> set calls)
      \<and> (stdout listing = [] \<and> c \<noteq> [] \<and> \<not> mkdir_failed
            \<longrightarrow> Rmapi (mkdir_category c) \<in> set calls)
      \<and> (c = [] \<longrightarrow> Rmapi (mkdir_category c) \<notin> set calls)
      \<and> (\<forall>k. ensure_directory
                (e\<lparr>rmapi := \<lambda>h a. if verb (Rmapi a) = ''ls''
                                   then (rmapi e h a)\<lparr>returncode := k h a\<rparr>
                                   else rmapi e h a\<rparr>) c s = r)"
  by (auto simp: ensure_directory_unfold emitted_def Let_def butlast_append)

theorem ensure_directory_failure_witness:
  "stdout (rmapi (scenario (bridge (\<lambda>a. if verb (Rmapi a) = ''ls'' then 1 else 0) []))
      (trace start) ls_root) = []
   \<and> fst (ensure_directory
        (scenario (bridge (\<lambda>a. if verb (Rmapi a) = ''ls'' then 1 else 0) [])) ''Physics'' start)
   \<and> Rmapi mkdir_papers \<in> set (emitted start (snd (ensure_directory
        (scenario (bridge (\<lambda>a. if verb (Rmapi a) = ''ls'' then 1 else 0) [])) ''Physics'' start)))
   \<and> Rmapi (mkdir_category ''Physics'') \<in> set (emitted start (snd (ensure_directory
        (scenario (bridge (\<lambda>a. if verb (Rmapi a) = ''ls'' then 1 else 0) [])) ''Physics'' start)))"
proof -
  let ?e = "scenario (bridge (\<lambda>a. if verb (Rmapi a) = ''ls'' then 1 else 0) [])"
  have root: "stdout (rmapi ?e (trace start) ls_root) = []"
    by (simp add: scenario_def bridge_def)
  have made: "returncode (rmapi ?e (trace start @ [Rmapi ls_root]) mkdir_papers) = 0"
    by (simp add: scenario_def bridge_def)
  have listing: "stdout (rmapi ?e (trace start @ [Rmapi ls_root, Rmapi mkdir_papers]) ls_papers) = []"
    by (simp add: scenario_def bridge_def)
  have last: "returncode (rmapi ?e
      (trace start @ [Rmapi ls_root, Rmapi mkdir_papers, Rmapi ls_papers])
      (mkdir_category ''Physics'')) = 0"
    by (simp add: scenario_def bridge_def)
  have r: "fst (ensure_directory ?e ''Physics'' start)"
    using root made listing last by (simp add: ensure_directory_unfold Let_def)
  from ensure_directory_failure [of ?e "''Physics''" start] root made listing r
  show ?thesis by (simp add: Let_def)
qed

section \<open>The Classifier Adapter\<close>





section \<open>Placing a document\<close>

lemma emitted_append: "trace s' = trace s @ es \<Longrightarrow> emitted s s' = es"
  by (simp add: emitted_def)

lemma analyze_trace:
  "\<exists>es. trace (snd (analyze_paper_with_claude e p s)) = trace s @ es
        \<and> (\<forall>ev\<in>set es. \<exists>d. ev = ClaudeRequest d)"
  by (auto simp: analyze_paper_with_claude_def emit_def Let_def split: sum.splits)

lemma resolve_labels_trace:
  "\<exists>es. trace (snd (resolve_labels e p t c s)) = trace s @ es
        \<and> (\<forall>ev\<in>set es. \<exists>d. ev = ClaudeRequest d)"
proof (cases "falsy t \<or> falsy c")
  case True
  obtain r s1 where a: "analyze_paper_with_claude e p s = (r, s1)" by (cases "analyze_paper_with_claude e p s")
  with analyze_trace [of e p s] True show ?thesis
    by (auto simp: resolve_labels_def split: sum.splits)
next
  case False
  then show ?thesis by (simp add: resolve_labels_def)
qed

lemma ensure_directory_trace:
  "\<exists>es. trace (snd (ensure_directory e c s)) = trace s @ es
        \<and> (\<forall>ev\<in>set es. verb ev = ''ls'' \<or> verb ev = ''mkdir'')"
  by (simp add: ensure_directory_unfold Let_def)

lemma put_and_rename_unfold:
  "put_and_rename e p c out dry_run s =
     (if dry_run then (True, s)
      else
        (let t1 = trace s @ [Rmapi (put_command p c)] in
         if returncode (rmapi e (trace s) (put_command p c)) \<noteq> 0
         then (False, s\<lparr>trace := t1\<rparr>)
         else if path_name p \<noteq> out
         then (returncode (rmapi e t1 (mv_command c (path_name p) out)) = 0,
               s\<lparr>trace := t1 @ [Rmapi (mv_command c (path_name p) out)]\<rparr>)
         else (True, s\<lparr>trace := t1\<rparr>)))"
  by (simp add: put_and_rename_def subprocess_run_def emit_def Let_def)

lemma put_and_rename_live:
  "\<exists>es. trace (snd (put_and_rename e p c out False s)) = trace s @ es
        \<and> (\<forall>ev\<in>set es. \<not> quiet ev)
        \<and> (\<not> fst (put_and_rename e p c out False s) \<longrightarrow> es \<noteq> [])"
  by (simp add: put_and_rename_unfold Let_def quiet_def)

lemma output_name_str:
  "output_name out (JString title) = Inr (or_else out (generate_formatted_filename latin1 title))"
  by (cases out) (simp_all add: output_name_def falsy_def or_else_def
      generate_formatted_filename_of_def)

lemma ensure_directory_not_str_trace:
  "\<exists>es. trace (snd (ensure_directory_not_str e s)) = trace s @ es
        \<and> (\<forall>ev\<in>set es. quiet ev)
        \<and> fst (ensure_directory_not_str e s) \<noteq> Inr True"
  by (simp add: ensure_directory_not_str_def subprocess_run_def emit_def Let_def quiet_def)

lemma file_paper_not_str:
  assumes "\<And>c. cls \<noteq> JString c"
  shows "file_paper e p t cls out dry s =
     (case output_name out t of
        Inl err \<Rightarrow> (Inl err, s)
      | Inr name \<Rightarrow> ensure_directory_not_str e s)"
  using assms by (cases cls) (auto simp: file_paper_def split: sum.splits)

lemma file_paper_dry_live:
  "\<exists>es xs. trace (snd (file_paper e p t c out True s)) = trace s @ es
     \<and> trace (snd (file_paper e p t c out False s)) = trace s @ es @ xs
     \<and> (\<forall>ev\<in>set es. quiet ev) \<and> (\<forall>ev\<in>set xs. \<not> quiet ev)
     \<and> (fst (file_paper e p t c out True s) = fst (file_paper e p t c out False s)
         \<or> fst (file_paper e p t c out True s) = Inr True
            \<and> fst (file_paper e p t c out False s) = Inr False \<and> xs \<noteq> [])"
proof (cases "output_name out t")
  case (Inl err)
  then have "file_paper e p t c out True s = (Inl err, s)"
    and "file_paper e p t c out False s = (Inl err, s)"
    by (simp_all add: file_paper_def)
  then show ?thesis by (intro exI [of _ "[]"]) simp
next
  case (Inr name)
  show ?thesis
  proof (cases "\<exists>cs. c = JString cs")
    case False
    then have same: "file_paper e p t c out True s = ensure_directory_not_str e s"
      "file_paper e p t c out False s = ensure_directory_not_str e s"
      using Inr by (simp_all add: file_paper_not_str)
    from ensure_directory_not_str_trace [of e s] obtain es where
      "trace (snd (ensure_directory_not_str e s)) = trace s @ es" "\<forall>ev\<in>set es. quiet ev"
      by auto
    then show ?thesis unfolding same by (intro exI [of _ es] exI [of _ "[]"]) simp
  next
    case True
    then obtain cs where cs: "c = JString cs" by auto
    obtain ok s1 where en: "ensure_directory e cs s = (ok, s1)"
      by (cases "ensure_directory e cs s")
    from ensure_directory_trace [of e cs s] en obtain es1 where
      t1: "trace s1 = trace s @ es1"
      and q1: "\<forall>ev\<in>set es1. verb ev = ''ls'' \<or> verb ev = ''mkdir''"
      by auto
    have f1: "\<forall>ev\<in>set es1. quiet ev" using q1 by (auto simp: quiet_def)
    show ?thesis
    proof (cases ok)
      case False
      then have "file_paper e p t c out True s = (Inr False, s1)"
        and "file_paper e p t c out False s = (Inr False, s1)"
        using en Inr cs by (simp_all add: file_paper_def)
      with t1 f1 show ?thesis by (intro exI [of _ es1] exI [of _ "[]"]) simp
    next
      case ok: True
      obtain b s2 where pr: "put_and_rename e p cs name False s1 = (b, s2)"
        by (cases "put_and_rename e p cs name False s1")
      from put_and_rename_live [of e p cs name s1] pr obtain es2 where
        t2: "trace s2 = trace s1 @ es2" and q2: "\<forall>ev\<in>set es2. \<not> quiet ev"
        and ne: "\<not> b \<longrightarrow> es2 \<noteq> []"
        by auto
      have dry: "file_paper e p t c out True s = (Inr True, s1)"
        using en ok Inr cs by (simp add: file_paper_def put_and_rename_unfold)
      have live: "file_paper e p t c out False s = (Inr b, s2)"
        using en ok pr Inr cs by (simp add: file_paper_def)
      show ?thesis
        unfolding dry live using t1 t2 f1 q2 ne
        by (intro exI [of _ es1] exI [of _ es2]) auto
    qed
  qed
qed

text \<open>
  Claim C5 as stated fails twice. On a remote store whose listings are empty, a dry run
  still creates the directories, which changes the remote state; and on a bridge whose
  \<open>put\<close> fails, the dry run returns \<open>True\<close> where the live run returns \<open>False\<close>.
\<close>

theorem upload_paper_dry_run_counterexample:
  "Rmapi mkdir_papers \<in> set (emitted start (snd (upload_paper
       (scenario (bridge (\<lambda>a. if verb (Rmapi a) = ''put'' then 1 else 0) []))
       (Some ''/home/u/paper.pdf'') None None None True start)))
   \<and> fst (upload_paper
       (scenario (bridge (\<lambda>a. if verb (Rmapi a) = ''put'' then 1 else 0) []))
       (Some ''/home/u/paper.pdf'') None None None True start) = Inr True
   \<and> fst (upload_paper
       (scenario (bridge (\<lambda>a. if verb (Rmapi a) = ''put'' then 1 else 0) []))
       (Some ''/home/u/paper.pdf'') None None None False start) = Inr False"
  by code_simp

text \<open>
  Claim C5, amended. A dry run of \<open>upload_paper\<close> issues no \<open>put\<close> and no \<open>mv\<close>:
  its calls are those of the live run, in the same order, with the \<open>put\<close> and the
  \<open>mv\<close> left out. It returns what the live run returns, except that it returns
  \<open>True\<close> where the live run returns \<open>False\<close> because its \<open>put\<close> or its \<open>mv\<close>, the
  last call of the live run, failed.
\<close>

theorem upload_paper_dry_run:
  "let dry = upload_paper e p t c out True s;
       live = upload_paper e p t c out False s
   in emitted s (snd dry) = filter quiet (emitted s (snd live))
      \<and> (fst dry = fst live
          \<or> fst dry = Inr True \<and> fst live = Inr False \<and> \<not> quiet (last (emitted s (snd live))))"
proof (cases p)
  case None
  then show ?thesis by (simp add: upload_paper_def emitted_def)
next
  case (Some path)
  show ?thesis
  proof (cases "files s path")
    case False
    with Some show ?thesis by (simp add: upload_paper_def emitted_def)
  next
    case True
    obtain r s1 where rl: "resolve_labels e path t c s = (r, s1)"
      by (cases "resolve_labels e path t c s")
    from resolve_labels_trace [of e path t c s] rl obtain es1 where
      t1: "trace s1 = trace s @ es1" and q1: "\<forall>ev\<in>set es1. \<exists>d. ev = ClaudeRequest d"
      by auto
    have f1: "filter quiet es1 = es1" using q1 by (auto simp: quiet_def intro!: filter_True)
    show ?thesis
    proof (cases r)
      case (Inl err)
      with Some True rl t1 f1 show ?thesis by (simp add: upload_paper_def emitted_append)
    next
      case (Inr labels)
      obtain t' c' where l: "labels = (t', c')" by (cases labels)
      obtain vd sd where d: "file_paper e path t' c' out True s1 = (vd, sd)"
        by (cases "file_paper e path t' c' out True s1")
      obtain vl sl where v: "file_paper e path t' c' out False s1 = (vl, sl)"
        by (cases "file_paper e path t' c' out False s1")
      have ud: "upload_paper e p t c out True s = (vd, sd)"
        using Some True rl Inr l d by (simp add: upload_paper_def)
      have ul: "upload_paper e p t c out False s = (vl, sl)"
        using Some True rl Inr l v by (simp add: upload_paper_def)
      from file_paper_dry_live [of e path t' c' out s1] d v obtain es xs where
        td: "trace sd = trace s1 @ es" and tl: "trace sl = trace s1 @ es @ xs"
        and qe: "\<forall>ev\<in>set es. quiet ev" and qx: "\<forall>ev\<in>set xs. \<not> quiet ev"
        and res: "vd = vl \<or> vd = Inr True \<and> vl = Inr False \<and> xs \<noteq> []"
        by auto
      have ed: "emitted s sd = es1 @ es" using t1 td by (simp add: emitted_append)
      have el: "emitted s sl = es1 @ es @ xs" using t1 tl by (simp add: emitted_append)
      have fe: "filter quiet es = es" using qe by (auto intro!: filter_True)
      have fx: "filter quiet xs = []" using qx by auto
      have "xs \<noteq> [] \<Longrightarrow> \<not> quiet (last (es1 @ es @ xs))"
        using qx by (auto dest: last_in_set)
      with res show ?thesis
        unfolding ud ul by (auto simp: ed el f1 fe fx)
    qed
  qed
qed

theorem upload_paper_dry_run_witness:
  "fst (upload_paper (scenario (bridge (\<lambda>a. 0) [])) (Some ''/home/u/paper.pdf'')
          None None None True start) = Inr True
   \<and> emitted start (snd (upload_paper (scenario (bridge (\<lambda>a. 0) []))
          (Some ''/home/u/paper.pdf'') None None None True start))
       = filter quiet (emitted start (snd (upload_paper (scenario (bridge (\<lambda>a. 0) []))
          (Some ''/home/u/paper.pdf'') None None None False start)))"
proof -
  have "fst (upload_paper (scenario (bridge (\<lambda>a. 0) [])) (Some ''/home/u/paper.pdf'')
          None None None True start) = Inr True"
    by code_simp
  with upload_paper_dry_run [of "scenario (bridge (\<lambda>a. 0) [])" "Some ''/home/u/paper.pdf''"
      None None None start]
  show ?thesis by (simp add: Let_def)
qed

text \<open>
  Claim C6 as stated fails: the test that decides the rename compares the file's name and
  the target filename as they are, extensions included. A local file named
  \<open>Dark Matter Survey\<close>, without extension, to which the oracle gives the title
  \<open>Dark Matter Survey\<close>, has the same name as the target \<open>Dark Matter Survey.pdf\<close>
  once the extension is stripped, and yet a rename is issued, from the name to itself.
\<close>

theorem upload_paper_rename_counterexample:
  "generate_formatted_filename latin1 ''Dark Matter Survey'' = ''Dark Matter Survey.pdf''
   \<and> remove_pdf latin1 (path_name ''/home/u/Dark Matter Survey'')
       = remove_pdf latin1 ''Dark Matter Survey.pdf''
   \<and> path_stem ''/home/u/Dark Matter Survey'' = path_stem ''Dark Matter Survey.pdf''
   \<and> emitted start (snd (upload_paper (scenario (bridge (\<lambda>a. 0) ''[d] papers\<newline>[d] Physics\<newline>''))
         (Some ''/home/u/Dark Matter Survey'') None None None False
         (start\<lparr>files := \<lambda>p. p = ''/home/u/Dark Matter Survey''\<rparr>)))
       = [ClaudeRequest ''%PDF page 1'', Rmapi ls_root, Rmapi ls_papers,
          Rmapi [''./bin/rmapi'', ''put'', ''/home/u/Dark Matter Survey'', ''/papers/Physics/''],
          Rmapi [''./bin/rmapi'', ''mv'', ''/papers/Physics/Dark Matter Survey'',
                 ''/papers/Physics/Dark Matter Survey'']]"
  by code_simp

text \<open>
  Claim C6, amended. In a live run of \<open>upload_paper\<close> on an existing file, once the
  directories are ensured and the \<open>put\<close> has exited with status 0, a rename is issued if
  and only if the file's name differs from the target filename, both taken with their
  extensions. The rename is then the last call, and it is the only place where the
  extension is stripped: it moves the name without \<open>.pdf\<close> to the target without
  \<open>.pdf\<close>. The target is the \<open>output_file_name\<close> given, or else the filename
  generated from the title.
\<close>

theorem upload_paper_rename:
  assumes "files s p"
    and "resolve_labels e p t c s = (Inr (title, JString cls), s1)"
    and "output_name out title = Inr target"
    and "ensure_directory e cls s1 = (True, s2)"
    and "returncode (rmapi e (trace s2) (put_command p cls)) = 0"
  shows "let calls = emitted s (snd (upload_paper e (Some p) t c out False s))
         in ((\<exists>ev\<in>set calls. verb ev = ''mv'') \<longleftrightarrow> path_name p \<noteq> target)
            \<and> (path_name p \<noteq> target
                 \<longrightarrow> last calls = Rmapi (mv_command cls (path_name p) target))"
proof -
  from resolve_labels_trace [of e p t c s] assms(2) obtain es1 where
    t1: "trace s1 = trace s @ es1" and q1: "\<forall>ev\<in>set es1. \<exists>d. ev = ClaudeRequest d"
    by auto
  from ensure_directory_trace [of e cls s1] assms(4) obtain es2 where
    t2: "trace s2 = trace s1 @ es2" and q2: "\<forall>ev\<in>set es2. verb ev = ''ls'' \<or> verb ev = ''mkdir''"
    by auto
  have n1: "\<forall>ev\<in>set es1. verb ev \<noteq> ''mv''" using q1 by auto
  have n2: "\<forall>ev\<in>set es2. verb ev \<noteq> ''mv''" using q2 by auto
  have up: "upload_paper e (Some p) t c out False s =
      (case put_and_rename e p cls target False s2 of (ok, s3) \<Rightarrow> (Inr ok, s3))"
    using assms(1-4) by (simp add: upload_paper_def file_paper_def)
  show ?thesis
  proof (cases "path_name p = target")
    case True
    then have "trace (snd (upload_paper e (Some p) t c out False s))
        = trace s @ es1 @ es2 @ [Rmapi (put_command p cls)]"
      using assms(5) t1 t2 by (simp add: up put_and_rename_unfold Let_def)
    then have "emitted s (snd (upload_paper e (Some p) t c out False s))
        = es1 @ es2 @ [Rmapi (put_command p cls)]"
      by (rule emitted_append)
    with True n1 n2 show ?thesis by (auto simp: Let_def)
  next
    case False
    then have "trace (snd (upload_paper e (Some p) t c out False s))
        = trace s @ es1 @ es2 @ [Rmapi (put_command p cls),
            Rmapi (mv_command cls (path_name p) target)]"
      using assms(5) t1 t2 by (simp add: up put_and_rename_unfold Let_def)
    then have "emitted s (snd (upload_paper e (Some p) t c out False s))
        = es1 @ es2 @ [Rmapi (put_command p cls),
            Rmapi (mv_command cls (path_name p) target)]"
      by (rule emitted_append)
    with False show ?thesis by (simp add: Let_def)
  qed
qed

theorem upload_paper_rename_witness:
  "files start ''/home/u/paper.pdf''
   \<and> fst (resolve_labels (scenario (bridge (\<lambda>a. 0) [])) ''/home/u/paper.pdf'' None None start)
       = Inr (JString ''Dark Matter Survey'', JString ''Physics'')
   \<and> output_name None (JString ''Dark Matter Survey'') = Inr ''Dark Matter Survey.pdf''
   \<and> path_name ''/home/u/paper.pdf'' \<noteq> ''Dark Matter Survey.pdf''
   \<and> last (emitted start (snd (upload_paper (scenario (bridge (\<lambda>a. 0) []))
        (Some ''/home/u/paper.pdf'') None None None False start)))
       = Rmapi [''./bin/rmapi'', ''mv'', ''/papers/Physics/paper'',
                ''/papers/Physics/Dark Matter Survey'']"
proof -
  let ?e = "scenario (bridge (\<lambda>a. 0) [])"
  let ?s1 = "snd (resolve_labels ?e ''/home/u/paper.pdf'' None None start)"
  let ?s2 = "snd (ensure_directory ?e ''Physics'' ?s1)"
  have f: "files start ''/home/u/paper.pdf''" by (simp add: start_def)
  have r: "fst (resolve_labels ?e ''/home/u/paper.pdf'' None None start)
      = Inr (JString ''Dark Matter Survey'', JString ''Physics'')"
    by code_simp
  then have r': "resolve_labels ?e ''/home/u/paper.pdf'' None None start
      = (Inr (JString ''Dark Matter Survey'', JString ''Physics''), ?s1)"
    by (simp only: prod_eq_iff fst_conv snd_conv simp_thms)
  have o: "output_name None (JString ''Dark Matter Survey'') = Inr ''Dark Matter Survey.pdf''"
    by code_simp
  have "fst (ensure_directory ?e ''Physics'' ?s1)" by code_simp
  then have d: "ensure_directory ?e ''Physics'' ?s1 = (True, ?s2)"
    by (simp only: prod_eq_iff fst_conv snd_conv simp_thms)
  have u: "returncode (rmapi ?e (trace ?s2) (put_command ''/home/u/paper.pdf'' ''Physics'')) = 0"
    by (simp add: scenario_def bridge_def)
  have n: "path_name ''/home/u/paper.pdf'' = ''paper.pdf''" by code_simp
  have m: "remove_pdf latin1 ''paper.pdf'' = ''paper''"
    "remove_pdf latin1 ''Dark Matter Survey.pdf'' = ''Dark Matter Survey''"
    by code_simp+
  have ne: "path_name ''/home/u/paper.pdf'' \<noteq> ''Dark Matter Survey.pdf''"
    unfolding n by simp
  from upload_paper_rename [OF f r' o d u]
  have "last (emitted start (snd (upload_paper ?e (Some ''/home/u/paper.pdf'') None None None
        False start)))
      = Rmapi (mv_command ''Physics'' (path_name ''/home/u/paper.pdf'') ''Dark Matter Survey.pdf'')"
    unfolding Let_def using ne by blast
  then have "last (emitted start (snd (upload_paper ?e (Some ''/home/u/paper.pdf'') None None None
        False start)))
      = Rmapi [''./bin/rmapi'', ''mv'', ''/papers/Physics/paper'',
                ''/papers/Physics/Dark Matter Survey'']"
    unfolding n m by simp
  with f r o ne show ?thesis by (simp only: simp_thms)
qed

section \<open>The Intake Dispatcher\<close>

lemma parse_id_empty: "parse_id [] = None"
  by code_simp

lemma parse_id_example: "parse_id ''2301.12345'' = Some ''2301.12345''"
  by code_simp





lemma handle_arxiv_paper_value:
  "fst (handle_arxiv_paper e i dry s) \<noteq> Inr (Some True)"
  by (auto simp: handle_arxiv_paper_def split: prod.splits sum.splits)

lemma main_remote:
  assumes "setup_error e = None" and "parse_id paper = Some i"
  shows "main e (Some paper) dry s =
     (case handle_arxiv_paper e i dry s of
        (Inl err, s') \<Rightarrow> (Uncaught err, s')
      | (Inr success, s') \<Rightarrow> (SysExit (if success = Some True then 0 else 1), s'))"
proof -
  have "paper \<noteq> []" using assms(2) parse_id_empty by auto
  then show ?thesis using assms by (simp add: main_def falsy_def or_else_def)
qed

lemma local_file_exit_code:
  assumes "setup_error e = None" and "paper \<noteq> []" and "parse_id paper = None"
  shows "exit_code (fst (main e (Some paper) dry s))
     = (if fst (upload_paper e (Some paper) None None None dry s) = Inr True then 0 else 1)"
  using assms
  by (cases "upload_paper e (Some paper) None None None dry s")
     (auto simp: main_def exit_code_def falsy_def or_else_def split: sum.splits)

text \<open>
  Claim C1. On the local-file path the exit code is 0 exactly when \<open>upload_paper\<close>
  returns \<open>True\<close>. The code does not do what the claim says on the remote-identifier path:
  \<open>handle_arxiv_paper\<close> returns \<open>False\<close> when the title is missing and otherwise ends
  without a \<open>return\<close>, so its value is never \<open>True\<close> and the exit code of a run on
  an arXiv identifier is 1 whatever happens, also when the download and the upload
  succeed.
\<close>

theorem remote_identifier_exit_code:
  "parse_id paper = Some i \<Longrightarrow> exit_code (fst (main e (Some paper) dry s)) = 1"
proof (cases "setup_error e")
  case (Some err)
  then show ?thesis by (simp add: main_def exit_code_def)
next
  case None
  assume "parse_id paper = Some i"
  from main_remote [OF None this, of dry s] handle_arxiv_paper_value [of e i dry s]
  show ?thesis
    by (cases "handle_arxiv_paper e i dry s") (auto simp: exit_code_def split: sum.splits)
qed

theorem remote_identifier_exit_code_witness:
  "parse_id ''2301.12345'' = Some ''2301.12345''
   \<and> arxiv_metadata (scenario (bridge (\<lambda>a. 0) [])) ''2301.12345''
       = (Some ''Attention Is All You Need'', Some ''ComputerScience'')
   \<and> fst (download_paper (scenario (bridge (\<lambda>a. 0) [])) ''2301.12345''
            (emit (ArxivQuery ''2301.12345'') start)) = Some ''/tmp/arxiv_2301.12345.pdf''
   \<and> fst (upload_paper (scenario (bridge (\<lambda>a. 0) [])) (Some ''/tmp/arxiv_2301.12345.pdf'')
            (Some ''Attention Is All You Need'') (Some ''ComputerScience'') None False
            (snd (download_paper (scenario (bridge (\<lambda>a. 0) [])) ''2301.12345''
               (emit (ArxivQuery ''2301.12345'') start)))) = Inr True
   \<and> exit_code (fst (main (scenario (bridge (\<lambda>a. 0) [])) (Some ''2301.12345'') False start)) = 1"
proof (intro conjI)
  show id: "parse_id ''2301.12345'' = Some ''2301.12345''" by code_simp
  show "arxiv_metadata (scenario (bridge (\<lambda>a. 0) [])) ''2301.12345''
       = (Some ''Attention Is All You Need'', Some ''ComputerScience'')"
    by (simp add: scenario_def)
  show "fst (download_paper (scenario (bridge (\<lambda>a. 0) [])) ''2301.12345''
            (emit (ArxivQuery ''2301.12345'') start)) = Some ''/tmp/arxiv_2301.12345.pdf''"
    by code_simp
  show "fst (upload_paper (scenario (bridge (\<lambda>a. 0) [])) (Some ''/tmp/arxiv_2301.12345.pdf'')
            (Some ''Attention Is All You Need'') (Some ''ComputerScience'') None False
            (snd (download_paper (scenario (bridge (\<lambda>a. 0) [])) ''2301.12345''
               (emit (ArxivQuery ''2301.12345'') start)))) = Inr True"
    by code_simp
  show "exit_code (fst (main (scenario (bridge (\<lambda>a. 0) [])) (Some ''2301.12345'') False start)) = 1"
    by (rule remote_identifier_exit_code [OF id])
qed

text \<open>
  Claim C3 as stated fails: there is no fallback when the title is missing. In the
  scenario below a local file named like the input exists, and filing it as a local file
  would succeed; the run nevertheless makes no call besides the metadata query and exits
  with code 1.
\<close>

theorem null_title_counterexample:
  "parse_id ''2301.12345'' = Some ''2301.12345''
   \<and> fst (upload_paper ((scenario (bridge (\<lambda>a. 0) []))\<lparr>arxiv_metadata := \<lambda>i. (None, None)\<rparr>)
        (Some ''2301.12345'') None None None False
        (start\<lparr>files := \<lambda>p. p = ''2301.12345''\<rparr>)) = Inr True
   \<and> fst (main ((scenario (bridge (\<lambda>a. 0) []))\<lparr>arxiv_metadata := \<lambda>i. (None, None)\<rparr>)
        (Some ''2301.12345'') False (start\<lparr>files := \<lambda>p. p = ''2301.12345''\<rparr>)) = SysExit 1
   \<and> emitted (start\<lparr>files := \<lambda>p. p = ''2301.12345''\<rparr>)
        (snd (main ((scenario (bridge (\<lambda>a. 0) []))\<lparr>arxiv_metadata := \<lambda>i. (None, None)\<rparr>)
           (Some ''2301.12345'') False (start\<lparr>files := \<lambda>p. p = ''2301.12345''\<rparr>)))
       = [ArxivQuery ''2301.12345'']"
  by code_simp

text \<open>
  Claim C3, amended. When the input resolves to an identifier and the metadata has no
  title (none, or an empty one), the dispatcher does not fall back to local-file handling:
  after the metadata query nothing is downloaded, classified or uploaded, and the run
  exits with code 1.
\<close>

theorem null_title_aborts:
  assumes "setup_error e = None" and "parse_id paper = Some i"
    and "falsy (fst (arxiv_metadata e i))"
  shows "main e (Some paper) dry s = (SysExit 1, emit (ArxivQuery i) s)"
proof -
  obtain title category where m: "arxiv_metadata e i = (title, category)"
    by (cases "arxiv_metadata e i")
  with assms(3) have "falsy title" by simp
  then show ?thesis
    by (simp add: main_remote [OF assms(1,2)] handle_arxiv_paper_def m)
qed

theorem null_title_aborts_witness:
  "setup_error ((scenario (bridge (\<lambda>a. 0) []))\<lparr>arxiv_metadata := \<lambda>i. (None, None)\<rparr>) = None
   \<and> parse_id ''2301.12345'' = Some ''2301.12345''
   \<and> falsy (fst (arxiv_metadata
        ((scenario (bridge (\<lambda>a. 0) []))\<lparr>arxiv_metadata := \<lambda>i. (None, None)\<rparr>) ''2301.12345''))
   \<and> main ((scenario (bridge (\<lambda>a. 0) []))\<lparr>arxiv_metadata := \<lambda>i. (None, None)\<rparr>)
        (Some ''2301.12345'') True start
       = (SysExit 1, emit (ArxivQuery ''2301.12345'') start)"
proof -
  let ?e = "(scenario (bridge (\<lambda>a. 0) []))\<lparr>arxiv_metadata := \<lambda>i. (None, None)\<rparr>"
  have a: "setup_error ?e = None" by (simp add: scenario_def)
  have b: "parse_id ''2301.12345'' = Some ''2301.12345''" by code_simp
  have c: "falsy (fst (arxiv_metadata ?e ''2301.12345''))" by (simp add: falsy_def)
  from null_title_aborts [OF a b c, where dry = True and s = start] a b c
  show ?thesis by (simp only: simp_thms)
qed








lemma missing_category_null_example:
  "main ((scenario (bridge (\<lambda>a. 0) []))
      \<lparr>arxiv_metadata := \<lambda>i. (Some ''Attention Is All You Need'', None),
        json_loads := \<lambda>t. Some (JObject [(''classification'', JNull),
                                           (''title'', JString ''T'')])\<rparr>)
      (Some ''2301.12345'') False start
    = (Uncaught TypeError,
       start\<lparr>trace := [ArxivQuery ''2301.12345'',
                        ArxivDownload ''2301.12345'' (Some ''/tmp/arxiv_2301.12345.pdf''),
                        ClaudeRequest ''%PDF page 1'',
                        Rmapi ls_root, Rmapi mkdir_papers, Rmapi ls_papers],
              files := (files start)(''/tmp/arxiv_2301.12345.pdf'' := True)\<rparr>)"
  by (simp add: main_def handle_arxiv_paper_def download_paper_def upload_paper_def
      resolve_labels_def analyze_paper_with_claude_def parse_response_def subscript_def
      file_paper_def output_name_def generate_formatted_filename_of_def
      ensure_directory_not_str_def subprocess_run_def emit_def falsy_def or_else_def
      py_str_def scenario_def bridge_def start_def Let_def parse_id_example)

end
